theory Spec2Isabelle
  imports Main "HOL-Library.Sublist"
begin

section \<open>JavaScript values\<close>

text \<open>
  The standalone validation script (\<^verbatim>\<open>src/unnamed/part_001\<close>) is plain
  JavaScript run by Node. Its values are modelled by a datatype.

  \<^item> A number is an integer-valued double or \<^verbatim>\<open>NaN\<close>. Every number the script computes is
    a literal, a counter, or the result of \<^verbatim>\<open>Number\<close> on a piece of a version string.
    The two zeros are one value: \<^verbatim>\<open>===\<close>, \<^verbatim>\<open><\<close>, string conversion and
    \<^verbatim>\<open>JSON.stringify\<close>, the only operations the script applies, do not tell them apart.
    Fractions and infinities are outside the model, and an integer stands for the double
    of the same value, which exists for every integer up to \<open>2^53\<close> in magnitude.
  \<^item> A string is the list of its code units, each below 256.
  \<^item> An array or object carries the address of its heap cell next to its contents, since
    \<^verbatim>\<open>===\<close> compares references. The contents of an object are its own enumerable
    properties in the order of \<^verbatim>\<open>Object.keys\<close>, with distinct keys.
\<close>

datatype jsnum = Fin int | NaN

datatype jsval =
    JUndefined
  | JNull
  | JBool bool
  | JNum jsnum
  | JStr string
  | JArr nat "jsval list"
  | JObj nat "(string \<times> jsval) list"

text \<open>
  A thrown value is an \<^verbatim>\<open>Error\<close> made by a matcher or a test, or a \<^verbatim>\<open>TypeError\<close>
  raised by the engine; the script throws nothing else. Both carry their \<^verbatim>\<open>message\<close>.
  The wording of an engine message is V8's and no statement below depends on it.
\<close>

datatype error = Error string | TypeError string

fun message :: "error \<Rightarrow> string" where
  "message (Error m) = m"
| "message (TypeError m) = m"

definition then_do :: "error + 'a \<Rightarrow> ('a \<Rightarrow> error + 'b) \<Rightarrow> error + 'b" where
  "then_do m f = (case m of Inl e \<Rightarrow> Inl e | Inr x \<Rightarrow> f x)"

definition throws :: "error + 'a \<Rightarrow> bool" where
  "throws m = (case m of Inl e \<Rightarrow> True | Inr x \<Rightarrow> False)"

subsection \<open>Truthiness and equality\<close>

text \<open>\<^verbatim>\<open>!actual\<close> is the negation of \<open>truthy\<close> (ToBoolean).\<close>

fun truthy :: "jsval \<Rightarrow> bool" where
  "truthy JUndefined = False"
| "truthy JNull = False"
| "truthy (JBool b) = b"
| "truthy (JNum (Fin n)) = (n \<noteq> 0)"
| "truthy (JNum NaN) = False"
| "truthy (JStr s) = (s \<noteq> [])"
| "truthy (JArr a xs) = True"
| "truthy (JObj a kvs) = True"

fun nullish :: "jsval \<Rightarrow> bool" where
  "nullish JUndefined = True"
| "nullish JNull = True"
| "nullish v = False"

fun num_equal :: "jsnum \<Rightarrow> jsnum \<Rightarrow> bool" where
  "num_equal (Fin a) (Fin b) = (a = b)"
| "num_equal x y = False"

text \<open>\<^verbatim>\<open>a === b\<close>: by value on primitives (\<^verbatim>\<open>NaN\<close> equals nothing), by address on
  arrays and objects.\<close>

fun strict_equal :: "jsval \<Rightarrow> jsval \<Rightarrow> bool" where
  "strict_equal JUndefined JUndefined = True"
| "strict_equal JNull JNull = True"
| "strict_equal (JBool a) (JBool b) = (a = b)"
| "strict_equal (JNum a) (JNum b) = num_equal a b"
| "strict_equal (JStr a) (JStr b) = (a = b)"
| "strict_equal (JArr a xs) (JArr b ys) = (a = b)"
| "strict_equal (JObj a xs) (JObj b ys) = (a = b)"
| "strict_equal x y = False"

text \<open>SameValueZero, the comparison of \<^verbatim>\<open>Array.prototype.includes\<close>: as \<^verbatim>\<open>===\<close>,
  but \<^verbatim>\<open>NaN\<close> is the same as itself.\<close>

fun same_value_zero :: "jsval \<Rightarrow> jsval \<Rightarrow> bool" where
  "same_value_zero (JNum NaN) (JNum NaN) = True"
| "same_value_zero x y = strict_equal x y"

subsection \<open>Conversion to string\<close>

definition digit_char :: "nat \<Rightarrow> char" where
  "digit_char d = ''0123456789'' ! d"

fun string_of_nat :: "nat \<Rightarrow> string" where
  "string_of_nat n =
     (if n < 10 then [digit_char n] else string_of_nat (n div 10) @ [digit_char (n mod 10)])"

declare string_of_nat.simps [simp del]

text \<open>Number::toString on an integer below \<open>10^21\<close> in magnitude is its decimal numeral.\<close>

fun number_to_string :: "jsnum \<Rightarrow> string" where
  "number_to_string NaN = ''NaN''"
| "number_to_string (Fin n) =
     (if n < 0 then ''-'' @ string_of_nat (nat (- n)) else string_of_nat (nat n))"

fun join :: "string \<Rightarrow> string list \<Rightarrow> string" where
  "join sep [] = []"
| "join sep [x] = x"
| "join sep (x # y # ys) = x @ sep @ join sep (y # ys)"

text \<open>The results of a list of computations, or the first error among them.\<close>

fun sequence :: "(error + 'a) list \<Rightarrow> error + 'a list" where
  "sequence [] = Inr []"
| "sequence (m # ms) =
     (case m of
        Inl e \<Rightarrow> Inl e
      | Inr x \<Rightarrow> (case sequence ms of Inl e \<Rightarrow> Inl e | Inr xs \<Rightarrow> Inr (x # xs)))"

text \<open>
  ToString, the conversion of a template literal \<^verbatim>\<open>${v}\<close> and of the argument of
  \<^verbatim>\<open>RegExp.prototype.test\<close>. An array joins the strings of its elements with commas, a
  nullish element giving the empty string. An object gives \<^verbatim>\<open>[object Object]\<close> through
  the inherited \<^verbatim>\<open>toString\<close>; where an own property of that name hides the inherited
  method (its value, coming from JSON, is not callable) the conversion raises a
  \<^verbatim>\<open>TypeError\<close>.
\<close>

fun to_string :: "jsval \<Rightarrow> error + string" where
  "to_string JUndefined = Inr ''undefined''"
| "to_string JNull = Inr ''null''"
| "to_string (JBool b) = Inr (if b then ''true'' else ''false'')"
| "to_string (JNum n) = Inr (number_to_string n)"
| "to_string (JStr s) = Inr s"
| "to_string (JArr a xs) =
     then_do (sequence (map (\<lambda>x. if nullish x then Inr [] else to_string x) xs))
       (\<lambda>parts. Inr (join '','' parts))"
| "to_string (JObj a kvs) =
     (if List.member (map fst kvs) ''toString''
      then Inl (TypeError ''Cannot convert object to primitive value'')
      else Inr ''[object Object]'')"

subsection \<open>\<^verbatim>\<open>JSON.stringify\<close>\<close>

definition dquote :: char where
  "dquote = CHR 0x22"

definition backslash :: char where
  "backslash = CHR 0x5C"

definition hex_char :: "nat \<Rightarrow> char" where
  "hex_char d = ''0123456789abcdef'' ! d"

text \<open>QuoteJSONString on one code unit below 256.\<close>

definition json_escape :: "char \<Rightarrow> string" where
  "json_escape c =
     (if c = dquote then [backslash, dquote]
      else if c = backslash then [backslash, backslash]
      else if c = CHR 0x08 then [backslash, CHR ''b'']
      else if c = CHR 0x0C then [backslash, CHR ''f'']
      else if c = CHR 0x0A then [backslash, CHR ''n'']
      else if c = CHR 0x0D then [backslash, CHR ''r'']
      else if c = CHR 0x09 then [backslash, CHR ''t'']
      else if (of_char c :: nat) < 32
        then [backslash, CHR ''u'', CHR ''0'', CHR ''0'',
              hex_char (of_char c div 16), hex_char (of_char c mod 16)]
      else [c])"

definition json_quote :: "string \<Rightarrow> string" where
  "json_quote s = [dquote] @ concat (map json_escape s) @ [dquote]"

text \<open>
  \<^verbatim>\<open>JSON.stringify(v)\<close> with one argument; \<open>None\<close> is the result \<^verbatim>\<open>undefined\<close>.
  Inside an array \<^verbatim>\<open>undefined\<close> is written \<^verbatim>\<open>null\<close>, inside an object the property
  is left out. \<^verbatim>\<open>NaN\<close> is written \<^verbatim>\<open>null\<close>.
\<close>

fun JSON_stringify :: "jsval \<Rightarrow> string option" where
  "JSON_stringify JUndefined = None"
| "JSON_stringify JNull = Some ''null''"
| "JSON_stringify (JBool b) = Some (if b then ''true'' else ''false'')"
| "JSON_stringify (JNum NaN) = Some ''null''"
| "JSON_stringify (JNum (Fin n)) = Some (number_to_string (Fin n))"
| "JSON_stringify (JStr s) = Some (json_quote s)"
| "JSON_stringify (JArr a xs) =
     Some (''['' @ join '',''
        (map (\<lambda>x. case JSON_stringify x of None \<Rightarrow> ''null'' | Some t \<Rightarrow> t) xs) @ '']'')"
| "JSON_stringify (JObj a kvs) =
     Some (''{'' @ join '',''
        (concat (map (\<lambda>(k, v). case JSON_stringify v of
                                  None \<Rightarrow> []
                                | Some t \<Rightarrow> [json_quote k @ '':'' @ t]) kvs)) @ ''}'')"

text \<open>\<^verbatim>\<open>${JSON.stringify(v)}\<close> inside a template literal.\<close>

definition shown :: "jsval \<Rightarrow> string" where
  "shown v = (case JSON_stringify v of None \<Rightarrow> ''undefined'' | Some t \<Rightarrow> t)"

section \<open>Regular expressions\<close>

text \<open>
  The syntax tree of a regular-expression literal without flags, for the constructs the
  script's literals use: literal characters, identity escapes such as \<^verbatim>\<open>\/\<close>, the
  classes \<^verbatim>\<open>\d\<close> and \<^verbatim>\<open>\s\<close>, bracket sets with ranges, the anchors, sequencing and the
  greedy quantifiers \<^verbatim>\<open>*\<close> and \<^verbatim>\<open>+\<close> on an atom. \<open>Lit c\<close> and \<open>CLit c\<close> are for a
  character that stands for itself where it is written.
\<close>

datatype cset = CLit char | CEsc char | CRange char char | CDigit | CSpace

datatype regex =
    Lit char
  | Esc char
  | Digit
  | Space
  | Set "cset list"
  | Bol
  | Eol
  | Seq regex regex
  | Star regex
  | Plus regex

definition is_digit :: "char \<Rightarrow> bool" where
  "is_digit c = (48 \<le> (of_char c :: nat) \<and> (of_char c :: nat) \<le> 57)"

text \<open>White space and line terminators among the code units below 256: tab, line feed,
  vertical tab, form feed, carriage return, space, no-break space.\<close>

definition is_space :: "char \<Rightarrow> bool" where
  "is_space c = ((of_char c :: nat) \<in> {9, 10, 11, 12, 13, 32, 160})"

fun in_cset :: "cset \<Rightarrow> char \<Rightarrow> bool" where
  "in_cset (CLit a) c = (c = a)"
| "in_cset (CEsc a) c = (c = a)"
| "in_cset (CRange a b) c = ((of_char a :: nat) \<le> of_char c \<and> (of_char c :: nat) \<le> of_char b)"
| "in_cset CDigit c = is_digit c"
| "in_cset CSpace c = is_space c"

fun weight :: "regex \<Rightarrow> nat" where
  "weight (Seq r1 r2) = Suc (weight r1 + weight r2)"
| "weight (Star r) = Suc (weight r)"
| "weight (Plus r) = Suc (Suc (weight r))"
| "weight r = 0"

text \<open>
  \<open>ends r s i\<close> lists the positions at which a match of \<open>r\<close> that starts at position
  \<open>i\<close> of \<open>s\<close> can end, in the order in which the backtracking matcher of the language
  tries them: a greedy quantifier first takes one more iteration, and an iteration of
  \<^verbatim>\<open>*\<close> that consumes nothing is rejected.
\<close>

function ends :: "regex \<Rightarrow> string \<Rightarrow> nat \<Rightarrow> nat list" where
  "ends (Lit c) s i = (if i < length s \<and> s ! i = c then [Suc i] else [])"
| "ends (Esc c) s i = (if i < length s \<and> s ! i = c then [Suc i] else [])"
| "ends Digit s i = (if i < length s \<and> is_digit (s ! i) then [Suc i] else [])"
| "ends Space s i = (if i < length s \<and> is_space (s ! i) then [Suc i] else [])"
| "ends (Set cs) s i =
     (if i < length s \<and> list_ex (\<lambda>x. in_cset x (s ! i)) cs then [Suc i] else [])"
| "ends Bol s i = (if i = 0 then [i] else [])"
| "ends Eol s i = (if i = length s then [i] else [])"
| "ends (Seq r1 r2) s i = concat (map (\<lambda>j. ends r2 s j) (ends r1 s i))"
| "ends (Star r) s i =
     concat (map (\<lambda>j. ends (Star r) s j)
                 (filter (\<lambda>j. i < j \<and> j \<le> length s) (ends r s i))) @ [i]"
| "ends (Plus r) s i = concat (map (\<lambda>j. ends (Star r) s j) (ends r s i))"
  by pat_completeness auto
termination
  by (relation "measures [\<lambda>(r, s, i). weight r, \<lambda>(r, s, i). length s - i]") auto

declare ends.simps(9) [simp del]

text \<open>\<^verbatim>\<open>pattern.test(str)\<close>: is there a match starting anywhere in \<open>str\<close>.\<close>

definition regex_test :: "regex \<Rightarrow> string \<Rightarrow> bool" where
  "regex_test r s = list_ex (\<lambda>i. ends r s i \<noteq> []) [0..<Suc (length s)]"

text \<open>The leftmost match, as \<^verbatim>\<open>exec\<close> finds it: its start and its end.\<close>

definition first_match :: "regex \<Rightarrow> string \<Rightarrow> (nat \<times> nat) option" where
  "first_match r s =
     (case filter (\<lambda>i. ends r s i \<noteq> []) [0..<Suc (length s)] of
        [] \<Rightarrow> None
      | i # rest \<Rightarrow> Some (i, hd (ends r s i)))"

text \<open>\<^verbatim>\<open>str.replace(pattern, '')\<close>: the leftmost match is cut out.\<close>

definition replace_empty :: "string \<Rightarrow> regex \<Rightarrow> string" where
  "replace_empty s r =
     (case first_match r s of None \<Rightarrow> s | Some (i, j) \<Rightarrow> take i s @ drop j s)"

fun cset_source :: "cset \<Rightarrow> string" where
  "cset_source (CLit a) = [a]"
| "cset_source (CEsc a) = [backslash, a]"
| "cset_source (CRange a b) = [a, CHR ''-'', b]"
| "cset_source CDigit = [backslash, CHR ''d'']"
| "cset_source CSpace = [backslash, CHR ''s'']"

fun source :: "regex \<Rightarrow> string" where
  "source (Lit c) = [c]"
| "source (Esc c) = [backslash, c]"
| "source Digit = [backslash, CHR ''d'']"
| "source Space = [backslash, CHR ''s'']"
| "source (Set cs) = ''['' @ concat (map cset_source cs) @ '']''"
| "source Bol = ''^''"
| "source Eol = ''$''"
| "source (Seq r1 r2) = source r1 @ source r2"
| "source (Star r) = source r @ ''*''"
| "source (Plus r) = source r @ ''+''"

text \<open>\<^verbatim>\<open>${pattern}\<close>: the literal between slashes.\<close>

definition regex_to_string :: "regex \<Rightarrow> string" where
  "regex_to_string r = ''/'' @ source r @ ''/''"

section \<open>Operators and built-in functions the script uses\<close>

definition squote :: char where
  "squote = CHR 0x27"

text \<open>The string-keyed properties of \<^verbatim>\<open>Object.prototype\<close> and \<^verbatim>\<open>Array.prototype\<close>
  (ECMAScript 2023 with Annex B), which every object or array inherits.\<close>

definition Object_prototype_names :: "string list" where
  "Object_prototype_names =
     [''constructor'', ''__defineGetter__'', ''__defineSetter__'', ''hasOwnProperty'',
      ''__lookupGetter__'', ''__lookupSetter__'', ''isPrototypeOf'',
      ''propertyIsEnumerable'', ''toString'', ''valueOf'', ''__proto__'',
      ''toLocaleString'']"

definition Array_prototype_names :: "string list" where
  "Array_prototype_names =
     [''length'', ''constructor'', ''at'', ''concat'', ''copyWithin'', ''fill'', ''find'',
      ''findIndex'', ''findLast'', ''findLastIndex'', ''lastIndexOf'', ''pop'', ''push'',
      ''reverse'', ''shift'', ''unshift'', ''slice'', ''sort'', ''splice'', ''includes'',
      ''indexOf'', ''join'', ''keys'', ''entries'', ''values'', ''forEach'', ''filter'',
      ''flat'', ''flatMap'', ''map'', ''every'', ''some'', ''reduce'', ''reduceRight'',
      ''toLocaleString'', ''toString'', ''toReversed'', ''toSorted'', ''toSpliced'',
      ''with'']"

text \<open>The names of the index properties of an array or string of length \<open>n\<close>.\<close>

definition index_names :: "nat \<Rightarrow> string list" where
  "index_names n = map string_of_nat [0..<n]"

text \<open>
  \<^verbatim>\<open>prop in v\<close>. On an object or array the property is looked up among the own
  properties and along the prototype chain; on a primitive the operator raises a
  \<^verbatim>\<open>TypeError\<close>.
\<close>

definition in_error :: "string \<Rightarrow> string \<Rightarrow> error" where
  "in_error prop operand =
     TypeError (''Cannot use '' @ [squote] @ ''in'' @ [squote]
       @ '' operator to search for '' @ [squote] @ prop @ [squote] @ '' in '' @ operand)"

fun js_in :: "string \<Rightarrow> jsval \<Rightarrow> error + bool" where
  "js_in prop (JObj a kvs) =
     Inr (List.member (map fst kvs) prop \<or> List.member Object_prototype_names prop)"
| "js_in prop (JArr a xs) =
     Inr (List.member (index_names (length xs)) prop
          \<or> List.member Array_prototype_names prop
          \<or> List.member Object_prototype_names prop)"
| "js_in prop JUndefined = Inl (in_error prop ''undefined'')"
| "js_in prop JNull = Inl (in_error prop ''null'')"
| "js_in prop (JBool b) = Inl (in_error prop (if b then ''true'' else ''false''))"
| "js_in prop (JNum n) = Inl (in_error prop (number_to_string n))"
| "js_in prop (JStr s) = Inl (in_error prop s)"

text \<open>
  \<^verbatim>\<open>v.name\<close> for a property name that no built-in prototype defines (the script reads
  \<^verbatim>\<open>dependencies\<close>, \<^verbatim>\<open>devDependencies\<close>, \<^verbatim>\<open>next\<close>, \<^verbatim>\<open>react\<close> and
  \<^verbatim>\<open>react-dom\<close> this way): the own property if there is one, else \<^verbatim>\<open>undefined\<close>; a
  \<^verbatim>\<open>TypeError\<close> on \<^verbatim>\<open>null\<close> and \<^verbatim>\<open>undefined\<close>. The own properties of an array
  or a string are its length and its elements.
\<close>

fun js_get :: "jsval \<Rightarrow> string \<Rightarrow> error + jsval" where
  "js_get JUndefined name =
     Inl (TypeError (''Cannot read properties of undefined (reading ''
            @ [squote] @ name @ [squote] @ '')''))"
| "js_get JNull name =
     Inl (TypeError (''Cannot read properties of null (reading ''
            @ [squote] @ name @ [squote] @ '')''))"
| "js_get (JObj a kvs) name =
     Inr (case map_of kvs name of None \<Rightarrow> JUndefined | Some v \<Rightarrow> v)"
| "js_get (JArr a xs) name =
     Inr (if name = ''length'' then JNum (Fin (int (length xs)))
          else case find (\<lambda>i. string_of_nat i = name) [0..<length xs] of
                 None \<Rightarrow> JUndefined | Some i \<Rightarrow> xs ! i)"
| "js_get (JStr s) name =
     Inr (if name = ''length'' then JNum (Fin (int (length s)))
          else case find (\<lambda>i. string_of_nat i = name) [0..<length s] of
                 None \<Rightarrow> JUndefined | Some i \<Rightarrow> JStr [s ! i])"
| "js_get v name = Inr JUndefined"

text \<open>\<^verbatim>\<open>a || b\<close>.\<close>

definition js_or :: "jsval \<Rightarrow> jsval \<Rightarrow> jsval" where
  "js_or a b = (if truthy a then a else b)"

text \<open>\<^verbatim>\<open>Object.keys(v)\<close>: the own enumerable string keys; a string has its indices, a
  number or boolean has none.\<close>

fun Object_keys :: "jsval \<Rightarrow> error + string list" where
  "Object_keys JUndefined =
     Inl (TypeError ''Cannot convert undefined or null to object'')"
| "Object_keys JNull =
     Inl (TypeError ''Cannot convert undefined or null to object'')"
| "Object_keys (JObj a kvs) = Inr (map fst kvs)"
| "Object_keys (JArr a xs) = Inr (index_names (length xs))"
| "Object_keys (JStr s) = Inr (index_names (length s))"
| "Object_keys v = Inr []"

text \<open>\<^verbatim>\<open>str.split('.')\<close> for a one-character separator.\<close>

fun split_on :: "char \<Rightarrow> string \<Rightarrow> string list" where
  "split_on sep [] = [[]]"
| "split_on sep (c # cs) =
     (if c = sep then [] # split_on sep cs
      else (case split_on sep cs of
              [] \<Rightarrow> [[c]]
            | w # ws \<Rightarrow> (c # w) # ws))"

text \<open>
  \<^verbatim>\<open>Number(str)\<close>: white space is trimmed, the empty string is \<open>0\<close>, an optionally signed
  decimal numeral is its value, and a string that is no numeric literal is \<^verbatim>\<open>NaN\<close>.
  The other numeric literals of the language (a fraction, an exponent, \<^verbatim>\<open>Infinity\<close>, the
  prefixes \<^verbatim>\<open>0x\<close>, \<^verbatim>\<open>0o\<close>, \<^verbatim>\<open>0b\<close>) have values outside the model or do not
  occur in a version string; the model reads them as \<^verbatim>\<open>NaN\<close>, and so is exact on
  strings of white space, sign and digits only.
\<close>

definition trim :: "string \<Rightarrow> string" where
  "trim s = rev (dropWhile is_space (rev (dropWhile is_space s)))"

definition digit_value :: "char \<Rightarrow> int" where
  "digit_value c = int (of_char c) - 48"

definition decimal :: "string \<Rightarrow> jsnum" where
  "decimal ds =
     (if ds \<noteq> [] \<and> list_all is_digit ds
      then Fin (foldl (\<lambda>a c. 10 * a + digit_value c) 0 ds) else NaN)"

fun negate :: "jsnum \<Rightarrow> jsnum" where
  "negate (Fin n) = Fin (- n)"
| "negate NaN = NaN"

definition Number_str :: "string \<Rightarrow> jsnum" where
  "Number_str s =
     (case trim s of
        [] \<Rightarrow> Fin 0
      | c # cs \<Rightarrow>
          if c = CHR ''+'' then decimal cs
          else if c = CHR ''-'' then negate (decimal cs)
          else decimal (c # cs))"

text \<open>Array destructuring \<^verbatim>\<open>[a, b, c] = xs\<close> reads \<^verbatim>\<open>undefined\<close> past the end.\<close>

definition element :: "jsval list \<Rightarrow> nat \<Rightarrow> jsval" where
  "element xs i = (if i < length xs then xs ! i else JUndefined)"

text \<open>ToPrimitive: an array or object is converted to its string. ToNumber.\<close>

fun to_primitive :: "jsval \<Rightarrow> error + jsval" where
  "to_primitive (JArr a xs) = then_do (to_string (JArr a xs)) (\<lambda>s. Inr (JStr s))"
| "to_primitive (JObj a kvs) = then_do (to_string (JObj a kvs)) (\<lambda>s. Inr (JStr s))"
| "to_primitive v = Inr v"

fun to_number :: "jsval \<Rightarrow> error + jsnum" where
  "to_number JUndefined = Inr NaN"
| "to_number JNull = Inr (Fin 0)"
| "to_number (JBool b) = Inr (Fin (if b then 1 else 0))"
| "to_number (JNum n) = Inr n"
| "to_number (JStr s) = Inr (Number_str s)"
| "to_number v = then_do (to_string v) (\<lambda>s. Inr (Number_str s))"

text \<open>The relational operators \<^verbatim>\<open>a < b\<close> and \<^verbatim>\<open>a <= b\<close>: both operands are made
  primitive, the left one first; two strings are compared by code units, anything else as
  numbers, and a comparison with \<^verbatim>\<open>NaN\<close> is false.\<close>

fun str_less :: "string \<Rightarrow> string \<Rightarrow> bool" where
  "str_less [] [] = False"
| "str_less [] (y # ys) = True"
| "str_less (x # xs) [] = False"
| "str_less (x # xs) (y # ys) =
     ((of_char x :: nat) < of_char y \<or> (x = y \<and> str_less xs ys))"

fun num_less :: "jsnum \<Rightarrow> jsnum \<Rightarrow> bool" where
  "num_less (Fin a) (Fin b) = (a < b)"
| "num_less x y = False"

fun num_less_eq :: "jsnum \<Rightarrow> jsnum \<Rightarrow> bool" where
  "num_less_eq (Fin a) (Fin b) = (a \<le> b)"
| "num_less_eq x y = False"

fun prim_less :: "jsval \<Rightarrow> jsval \<Rightarrow> error + bool" where
  "prim_less (JStr s) (JStr t) = Inr (str_less s t)"
| "prim_less x y =
     then_do (to_number x) (\<lambda>nx. then_do (to_number y) (\<lambda>ny. Inr (num_less nx ny)))"

fun prim_less_eq :: "jsval \<Rightarrow> jsval \<Rightarrow> error + bool" where
  "prim_less_eq (JStr s) (JStr t) = Inr (\<not> str_less t s)"
| "prim_less_eq x y =
     then_do (to_number x) (\<lambda>nx. then_do (to_number y) (\<lambda>ny. Inr (num_less_eq nx ny)))"

definition js_less :: "jsval \<Rightarrow> jsval \<Rightarrow> error + bool" where
  "js_less a b =
     then_do (to_primitive a) (\<lambda>pa. then_do (to_primitive b) (\<lambda>pb. prim_less pa pb))"

definition js_less_eq :: "jsval \<Rightarrow> jsval \<Rightarrow> error + bool" where
  "js_less_eq a b =
     then_do (to_primitive a) (\<lambda>pa. then_do (to_primitive b) (\<lambda>pb. prim_less_eq pa pb))"

text \<open>\<^verbatim>\<open>a || b\<close> and \<^verbatim>\<open>a && b\<close> on boolean operands: the right operand is not
  evaluated, and so cannot raise, when the left one decides.\<close>

definition or_else :: "error + bool \<Rightarrow> error + bool \<Rightarrow> error + bool" where
  "or_else a b = then_do a (\<lambda>x. if x then Inr True else b)"

definition and_also :: "error + bool \<Rightarrow> error + bool \<Rightarrow> error + bool" where
  "and_also a b = then_do a (\<lambda>x. if x then b else Inr False)"

text \<open>\<^verbatim>\<open>actual.includes(item)\<close>: an array compares its elements with SameValueZero, a
  string searches for the string of the item; any other value of the model has no callable
  \<^verbatim>\<open>includes\<close>, and the call raises a \<^verbatim>\<open>TypeError\<close>.\<close>

fun js_includes :: "jsval \<Rightarrow> jsval \<Rightarrow> error + bool" where
  "js_includes (JArr a xs) item = Inr (list_ex (\<lambda>x. same_value_zero x item) xs)"
| "js_includes (JStr s) item = then_do (to_string item) (\<lambda>t. Inr (sublist t s))"
| "js_includes JUndefined item =
     Inl (TypeError (''Cannot read properties of undefined (reading ''
            @ [squote] @ ''includes'' @ [squote] @ '')''))"
| "js_includes JNull item =
     Inl (TypeError (''Cannot read properties of null (reading ''
            @ [squote] @ ''includes'' @ [squote] @ '')''))"
| "js_includes v item = Inl (TypeError ''actual.includes is not a function'')"

text \<open>\<^verbatim>\<open>v.replace(pattern, '')\<close>: only a string has the method.\<close>

fun js_replace_empty :: "string \<Rightarrow> jsval \<Rightarrow> regex \<Rightarrow> error + string" where
  "js_replace_empty var (JStr s) r = Inr (replace_empty s r)"
| "js_replace_empty var JUndefined r =
     Inl (TypeError (''Cannot read properties of undefined (reading ''
            @ [squote] @ ''replace'' @ [squote] @ '')''))"
| "js_replace_empty var JNull r =
     Inl (TypeError (''Cannot read properties of null (reading ''
            @ [squote] @ ''replace'' @ [squote] @ '')''))"
| "js_replace_empty var v r = Inl (TypeError (var @ ''.replace is not a function''))"

section \<open>The matchers of \<^verbatim>\<open>expect\<close>\<close>

text \<open>
  \<^verbatim>\<open>expect(actual)\<close> returns an object of matchers closed over \<^verbatim>\<open>actual\<close>; each
  matcher is modelled as a function of \<^verbatim>\<open>actual\<close> and its own argument. It returns
  \<open>Inr ()\<close> or the thrown error.
\<close>

definition toBe :: "jsval \<Rightarrow> jsval \<Rightarrow> error + unit" where
  "toBe actual expected =
     (if \<not> strict_equal actual expected
      then Inl (Error (''Expected '' @ shown expected @ '', but got '' @ shown actual))
      else Inr ())"

definition toMatch :: "jsval \<Rightarrow> regex \<Rightarrow> error + unit" where
  "toMatch actual pattern =
     then_do (to_string actual) (\<lambda>str.
       if \<not> regex_test pattern str
       then Inl (Error (''Expected '' @ shown actual @ '' to match ''
                        @ regex_to_string pattern))
       else Inr ())"

definition toBeDefined :: "jsval \<Rightarrow> error + unit" where
  "toBeDefined actual =
     (if actual = JUndefined then Inl (Error ''Expected value to be defined'') else Inr ())"

definition toHaveProperty :: "jsval \<Rightarrow> string \<Rightarrow> error + unit" where
  "toHaveProperty actual prop =
     (if \<not> truthy actual
      then Inl (Error (''Expected object to have property '' @ prop))
      else then_do (js_in prop actual) (\<lambda>present.
        if \<not> present
        then Inl (Error (''Expected object to have property '' @ prop))
        else Inr ()))"

definition toBeTruthy :: "jsval \<Rightarrow> error + unit" where
  "toBeTruthy actual =
     (if \<not> truthy actual
      then Inl (Error (''Expected '' @ shown actual @ '' to be truthy''))
      else Inr ())"

definition toBeGreaterThan :: "jsval \<Rightarrow> jsval \<Rightarrow> error + unit" where
  "toBeGreaterThan actual expected =
     then_do (js_less_eq actual expected) (\<lambda>le.
       if le
       then then_do (to_string actual) (\<lambda>a. then_do (to_string expected) (\<lambda>e.
              Inl (Error (''Expected '' @ a @ '' to be greater than '' @ e))))
       else Inr ())"

definition toBeGreaterThanOrEqual :: "jsval \<Rightarrow> jsval \<Rightarrow> error + unit" where
  "toBeGreaterThanOrEqual actual expected =
     then_do (js_less actual expected) (\<lambda>lt.
       if lt
       then then_do (to_string actual) (\<lambda>a. then_do (to_string expected) (\<lambda>e.
              Inl (Error (''Expected '' @ a @ '' to be greater than or equal to '' @ e))))
       else Inr ())"

definition toEqual :: "jsval \<Rightarrow> jsval \<Rightarrow> error + unit" where
  "toEqual actual expected =
     (if JSON_stringify actual \<noteq> JSON_stringify expected
      then Inl (Error (''Expected '' @ shown expected @ '', but got '' @ shown actual))
      else Inr ())"

text \<open>The negated matchers, \<^verbatim>\<open>expect(actual).not\<close>. For \<^verbatim>\<open>not.toThrow\<close> the wrapped
  value is a function of no argument.\<close>

definition not_toThrow :: "(unit \<Rightarrow> error + 'a) \<Rightarrow> error + unit" where
  "not_toThrow actual =
     (case actual () of
        Inl e \<Rightarrow> Inl (Error (''Expected function not to throw, but it threw: '' @ message e))
      | Inr x \<Rightarrow> Inr ())"

definition not_toMatch :: "jsval \<Rightarrow> regex \<Rightarrow> error + unit" where
  "not_toMatch actual pattern =
     then_do (to_string actual) (\<lambda>str.
       if regex_test pattern str
       then Inl (Error (''Expected '' @ shown actual @ '' not to match ''
                        @ regex_to_string pattern))
       else Inr ())"

definition not_toBeNull :: "jsval \<Rightarrow> error + unit" where
  "not_toBeNull actual =
     (if actual = JNull then Inl (Error ''Expected value not to be null'') else Inr ())"

definition not_toBeUndefined :: "jsval \<Rightarrow> error + unit" where
  "not_toBeUndefined actual =
     (if actual = JUndefined then Inl (Error ''Expected value not to be undefined'')
      else Inr ())"

definition not_toBe :: "jsval \<Rightarrow> jsval \<Rightarrow> error + unit" where
  "not_toBe actual expected =
     (if strict_equal actual expected
      then Inl (Error (''Expected not to be '' @ shown expected))
      else Inr ())"

text \<open>\<^verbatim>\<open>actual && actual.includes(item)\<close>: the call is only made on a truthy value.\<close>

definition not_toContain :: "jsval \<Rightarrow> jsval \<Rightarrow> error + unit" where
  "not_toContain actual item =
     (if \<not> truthy actual then Inr ()
      else then_do (js_includes actual item) (\<lambda>found.
        if found
        then then_do (to_string item) (\<lambda>shown_item.
               Inl (Error (''Expected array not to contain '' @ shown_item)))
        else Inr ()))"

section \<open>The checks on the manifest\<close>

text \<open>The literal \<^verbatim>\<open>/^[\^~]/\<close> and the literal \<^verbatim>\<open>/x/\<close> of the specification's
  example.\<close>

definition caret_or_tilde :: regex where
  "caret_or_tilde = Seq Bol (Set [CEsc CHR ''^'', CLit CHR ''~''])"

definition letter_x :: regex where
  "letter_x = Lit CHR ''x''"

text \<open>\<^verbatim>\<open>const [major, minor, patch] = cleanVersion.split('.').map(Number)\<close>.\<close>

definition version_numbers :: "string \<Rightarrow> jsval list" where
  "version_numbers cleanVersion =
     map (\<lambda>part. JNum (Number_str part)) (split_on CHR ''.'' cleanVersion)"

text \<open>The test \<^verbatim>\<open>should use Next.js 15.5.10 or higher to fix vulnerability\<close>.\<close>

definition test_next_version :: "jsval \<Rightarrow> error + unit" where
  "test_next_version packageJson =
     then_do (js_get packageJson ''dependencies'') (\<lambda>dependencies.
     then_do (js_get dependencies ''next'') (\<lambda>nextVersion.
     then_do (js_replace_empty ''nextVersion'' nextVersion caret_or_tilde) (\<lambda>cleanVersion.
       let parts = version_numbers cleanVersion;
           major = element parts 0;
           minor = element parts 1;
           patch = element parts 2
       in then_do (toBeGreaterThanOrEqual major (JNum (Fin 15))) (\<lambda>u.
          if strict_equal major (JNum (Fin 15))
          then then_do (toBeGreaterThanOrEqual minor (JNum (Fin 5))) (\<lambda>u.
                 if strict_equal minor (JNum (Fin 5))
                 then toBeGreaterThanOrEqual patch (JNum (Fin 10))
                 else Inr ())
          else Inr ()))))"

text \<open>The test \<^verbatim>\<open>should not use vulnerable Next.js versions\<close>.\<close>

definition test_not_vulnerable :: "jsval \<Rightarrow> error + unit" where
  "test_not_vulnerable packageJson =
     then_do (js_get packageJson ''dependencies'') (\<lambda>dependencies.
     then_do (js_get dependencies ''next'') (\<lambda>nextVersion.
     then_do (js_replace_empty ''nextVersion'' nextVersion caret_or_tilde) (\<lambda>cleanVersion.
       let parts = version_numbers cleanVersion;
           major = element parts 0;
           minor = element parts 1;
           patch = element parts 2;
           isVulnerable =
             or_else
               (or_else (js_less major (JNum (Fin 15)))
                  (and_also (Inr (strict_equal major (JNum (Fin 15))))
                     (js_less minor (JNum (Fin 5)))))
               (and_also
                  (and_also (Inr (strict_equal major (JNum (Fin 15))))
                     (Inr (strict_equal minor (JNum (Fin 5)))))
                  (js_less patch (JNum (Fin 10))))
       in then_do isVulnerable (\<lambda>vulnerable. toBe (JBool vulnerable) (JBool False)))))"

text \<open>The test \<^verbatim>\<open>should use consistent React versions\<close>.\<close>

definition test_react_consistent :: "jsval \<Rightarrow> error + unit" where
  "test_react_consistent packageJson =
     then_do (js_get packageJson ''dependencies'') (\<lambda>dependencies.
     then_do (js_get dependencies ''react'') (\<lambda>reactVersion.
     then_do (js_get packageJson ''dependencies'') (\<lambda>dependencies'.
     then_do (js_get dependencies' ''react-dom'') (\<lambda>reactDomVersion.
       toBe reactVersion reactDomVersion))))"

text \<open>
  The test \<^verbatim>\<open>should not have duplicate dependencies\<close>. The objects and arrays that it
  creates are given the heap addresses from \<open>free\<close> on, the first unused one; they are
  never compared. The arrays of keys returned by \<^verbatim>\<open>Object.keys\<close> are lists of strings,
  and \<^verbatim>\<open>devDepKeys.includes(dep)\<close> on them is list membership.
\<close>

definition test_no_duplicates :: "nat \<Rightarrow> jsval \<Rightarrow> error + unit" where
  "test_no_duplicates free packageJson =
     then_do (js_get packageJson ''dependencies'') (\<lambda>dependencies.
     then_do (Object_keys (js_or dependencies (JObj free []))) (\<lambda>depKeys.
     then_do (js_get packageJson ''devDependencies'') (\<lambda>devDependencies.
     then_do (Object_keys (js_or devDependencies (JObj (free + 1) []))) (\<lambda>devDepKeys.
       let duplicates = filter (\<lambda>dep. List.member devDepKeys dep) depKeys
       in toEqual (JArr (free + 2) (map JStr duplicates)) (JArr (free + 3) [])))))"

section \<open>The test runner\<close>

text \<open>
  The counters \<^verbatim>\<open>passCount\<close> and \<^verbatim>\<open>failCount\<close>, the array \<^verbatim>\<open>failures\<close> of
  \<^verbatim>\<open>{description, error}\<close> pairs, and the lines written so far to the two streams. The
  check mark and the cross are written as their UTF-8 bytes.
\<close>

datatype stream = Stdout | Stderr

record runner =
  passCount :: nat
  failCount :: nat
  failures :: "(string \<times> string) list"
  console :: "(stream \<times> string) list"

definition initial :: runner where
  "initial = \<lparr>passCount = 0, failCount = 0, failures = [], console = []\<rparr>"

definition check_mark :: string where
  "check_mark = [CHR 0xE2, CHR 0x9C, CHR 0x93]"

definition cross_mark :: string where
  "cross_mark = [CHR 0xE2, CHR 0x9C, CHR 0x97]"

definition log :: "stream \<Rightarrow> string \<Rightarrow> runner \<Rightarrow> runner" where
  "log out line r = r\<lparr>console := console r @ [(out, line)]\<rparr>"

text \<open>\<^verbatim>\<open>function test(description, testFn)\<close>.\<close>

definition test :: "string \<Rightarrow> (unit \<Rightarrow> error + unit) \<Rightarrow> runner \<Rightarrow> runner" where
  "test description testFn r =
     (case testFn () of
        Inr u \<Rightarrow>
          log Stdout (check_mark @ '' '' @ description)
            (r\<lparr>passCount := passCount r + 1\<rparr>)
      | Inl e \<Rightarrow>
          log Stderr (''  '' @ message e)
            (log Stderr (cross_mark @ '' '' @ description)
              (r\<lparr>failCount := failCount r + 1,
                 failures := failures r @ [(description, message e)]\<rparr>)))"

text \<open>The top-level statements of the script between loading the manifest and the
  summary: a section heading is logged, or a test case is registered and run.\<close>

datatype statement = Log string | Test string "unit \<Rightarrow> error + unit"

fun execute :: "statement \<Rightarrow> runner \<Rightarrow> runner" where
  "execute (Log line) r = log Stdout line r"
| "execute (Test description testFn) r = test description testFn r"

definition run :: "statement list \<Rightarrow> runner \<Rightarrow> runner" where
  "run prog r = foldl (\<lambda>r st. execute st r) r prog"

text \<open>The summary and \<^verbatim>\<open>process.exit\<close>: the final state and the exit code.\<close>

definition newline :: char where
  "newline = CHR 0x0A"

definition summary :: "runner \<Rightarrow> runner \<times> nat" where
  "summary r =
     (let r1 = log Stdout (newline # ''=== Test Summary ==='') r;
          r2 = log Stdout (check_mark @ '' Passed: '' @ string_of_nat (passCount r1)) r1;
          r3 = log Stdout (cross_mark @ '' Failed: '' @ string_of_nat (failCount r2)) r2;
          r4 = log Stdout (''Total: '' @ string_of_nat (passCount r3 + failCount r3)) r3
      in if failCount r4 > 0
         then (foldl (\<lambda>r (description, error).
                        log Stdout (''  - '' @ description @ '': '' @ error) r)
                     (log Stdout (newline # ''Failures:'') r4) (failures r4), 1)
         else (log Stdout (newline # check_mark @ '' All tests passed!'') r4, 0))"

definition script :: "statement list \<Rightarrow> runner \<times> nat" where
  "script prog = summary (run prog initial)"

section \<open>Notions used in the statements\<close>

text \<open>The test cases a script registers, in order; how many there are, and how many of
  them throw when run.\<close>

fun cases_of :: "statement list \<Rightarrow> (string \<times> (unit \<Rightarrow> error + unit)) list" where
  "cases_of [] = []"
| "cases_of (Log line # prog) = cases_of prog"
| "cases_of (Test description testFn # prog) = (description, testFn) # cases_of prog"

definition registered :: "statement list \<Rightarrow> nat" where
  "registered prog = length (cases_of prog)"

definition failing :: "statement list \<Rightarrow> nat" where
  "failing prog =
     length (filter (\<lambda>(description, testFn). throws (testFn ())) (cases_of prog))"

text \<open>The description and error message of every case that throws, in the order of the
  cases.\<close>

fun failed_entries ::
  "(string \<times> (unit \<Rightarrow> error + unit)) list \<Rightarrow> (string \<times> string) list" where
  "failed_entries [] = []"
| "failed_entries ((description, testFn) # cs) =
     (case testFn () of
        Inl e \<Rightarrow> (description, message e) # failed_entries cs
      | Inr u \<Rightarrow> failed_entries cs)"

text \<open>
  What it means for a regular expression to match: \<open>matches r s i j\<close> holds when \<open>r\<close>
  matches the part of \<open>s\<close> from position \<open>i\<close> up to position \<open>j\<close>. This is the
  declarative reading of the syntax, against which the backtracking search \<open>ends\<close> is
  checked below.
\<close>

inductive matches :: "regex \<Rightarrow> string \<Rightarrow> nat \<Rightarrow> nat \<Rightarrow> bool" where
  m_Lit: "i < length s \<Longrightarrow> s ! i = c \<Longrightarrow> matches (Lit c) s i (Suc i)"
| m_Esc: "i < length s \<Longrightarrow> s ! i = c \<Longrightarrow> matches (Esc c) s i (Suc i)"
| m_Digit: "i < length s \<Longrightarrow> is_digit (s ! i) \<Longrightarrow> matches Digit s i (Suc i)"
| m_Space: "i < length s \<Longrightarrow> is_space (s ! i) \<Longrightarrow> matches Space s i (Suc i)"
| m_Set: "i < length s \<Longrightarrow> x \<in> set cs \<Longrightarrow> in_cset x (s ! i)
           \<Longrightarrow> matches (Set cs) s i (Suc i)"
| m_Bol: "matches Bol s 0 0"
| m_Eol: "matches Eol s (length s) (length s)"
| m_Seq: "matches r1 s i j \<Longrightarrow> matches r2 s j k \<Longrightarrow> matches (Seq r1 r2) s i k"
| m_Star0: "matches (Star r) s i i"
| m_Star: "matches r s i j \<Longrightarrow> matches (Star r) s j k \<Longrightarrow> matches (Star r) s i k"
| m_Plus: "matches r s i j \<Longrightarrow> matches (Star r) s j k \<Longrightarrow> matches (Plus r) s i k"

text \<open>A value that JSON can represent: no \<^verbatim>\<open>undefined\<close> and no \<^verbatim>\<open>NaN\<close> anywhere
  in it.\<close>

fun is_json :: "jsval \<Rightarrow> bool" where
  "is_json JUndefined = False"
| "is_json JNull = True"
| "is_json (JBool b) = True"
| "is_json (JNum NaN) = False"
| "is_json (JNum (Fin n)) = True"
| "is_json (JStr s) = True"
| "is_json (JArr a xs) = list_all is_json xs"
| "is_json (JObj a kvs) = list_all (\<lambda>(k, v). is_json v) kvs"

text \<open>Two values are views of one heap: where both are the array, or both the object, at
  the same address, they have the same contents.\<close>

fun consistent :: "jsval \<Rightarrow> jsval \<Rightarrow> bool" where
  "consistent (JArr a xs) (JArr b ys) = (a = b \<longrightarrow> xs = ys)"
| "consistent (JObj a xs) (JObj b ys) = (a = b \<longrightarrow> xs = ys)"
| "consistent x y = True"

text \<open>A version range \<^verbatim>\<open>M.m.p\<close>, \<^verbatim>\<open>^M.m.p\<close> or \<^verbatim>\<open>~M.m.p\<close> is written with one
  of three prefixes; the version \<open>M.m.p\<close> is at least \<open>15.5.10\<close>.\<close>

definition range_prefix :: "string \<Rightarrow> bool" where
  "range_prefix pre \<longleftrightarrow> pre = [] \<or> pre = ''^'' \<or> pre = ''~''"

definition at_least_15_5_10 :: "nat \<Rightarrow> nat \<Rightarrow> nat \<Rightarrow> bool" where
  "at_least_15_5_10 M m p \<longleftrightarrow> M > 15 \<or> (M = 15 \<and> (m > 5 \<or> (m = 5 \<and> p \<ge> 10)))"

text \<open>A character of a decimal numeral: a digit, and so none of the characters that the
  version check treats specially.\<close>

definition plain :: "char \<Rightarrow> bool" where
  "plain c \<longleftrightarrow>
     is_digit c \<and> \<not> is_space c \<and> c \<noteq> CHR ''.'' \<and> c \<noteq> CHR ''+'' \<and> c \<noteq> CHR ''-''
     \<and> c \<noteq> CHR ''^'' \<and> c \<noteq> CHR ''~''"

text \<open>The manifest of the specification's scenario, with the version range of
  \<^verbatim>\<open>next\<close> left open.\<close>

definition scenario :: "string \<Rightarrow> jsval" where
  "scenario v =
     JObj 0 [(''name'', JStr ''@scope/pkg''), (''version'', JStr ''1.0.0''),
             (''private'', JBool True),
             (''dependencies'', JObj 1 [(''next'', JStr v)]),
             (''devDependencies'', JObj 2 [])]"

section \<open>Basic facts\<close>

lemma then_do_Inr [simp]: "then_do (Inr x) f = f x"
  by (simp add: then_do_def)

lemma then_do_Inl [simp]: "then_do (Inl e) f = Inl e"
  by (simp add: then_do_def)

lemma or_else_Inr [simp]: "or_else (Inr x) b = (if x then Inr True else b)"
  by (simp add: or_else_def)

lemma and_also_Inr [simp]: "and_also (Inr x) b = (if x then b else Inr False)"
  by (simp add: and_also_def)

lemma falsy_iff:
  "\<not> truthy v \<longleftrightarrow>
     v = JUndefined \<or> v = JNull \<or> v = JBool False \<or> v = JNum (Fin 0) \<or> v = JNum NaN
     \<or> v = JStr []"
proof (cases v)
  case (JNum n)
  then show ?thesis by (cases n) simp_all
qed simp_all

lemma num_equal_iff: "num_equal x y \<longleftrightarrow> x = y \<and> x \<noteq> NaN"
  by (cases x; cases y) simp_all

lemma strict_equal_refl: "v \<noteq> JNum NaN \<Longrightarrow> strict_equal v v"
proof (cases v)
  case (JNum n)
  assume "v \<noteq> JNum NaN"
  with JNum show ?thesis by (cases n) simp_all
qed simp_all

lemma strict_equal_differs: "a \<noteq> b \<Longrightarrow> consistent a b \<Longrightarrow> \<not> strict_equal a b"
  by (cases a; cases b) (simp_all add: num_equal_iff)

lemma is_json_not_NaN: "is_json v \<Longrightarrow> v \<noteq> JNum NaN"
  by auto

lemma is_json_stringify: "is_json v \<Longrightarrow> JSON_stringify v = Some (shown v)"
proof (cases v)
  case (JNum n)
  assume "is_json v"
  with JNum show ?thesis by (cases n) (simp_all add: shown_def)
qed (simp_all add: shown_def)

lemma shown_bool: "shown (JBool b) = (if b then ''true'' else ''false'')"
  by (simp add: shown_def)

lemma shown_str: "shown (JStr s) = json_quote s"
  by (simp add: shown_def)

lemma json_quote_nonempty: "json_quote s \<noteq> []"
  by (simp add: json_quote_def)

lemma join_nonempty: "xs \<noteq> [] \<Longrightarrow> \<forall>x \<in> set xs. x \<noteq> [] \<Longrightarrow> join sep xs \<noteq> []"
proof (cases xs)
  case (Cons x rest)
  assume "\<forall>x \<in> set xs. x \<noteq> []"
  with Cons show ?thesis by (cases rest) simp_all
qed simp

lemma js_less_numbers [simp]: "js_less (JNum (Fin x)) (JNum (Fin y)) = Inr (x < y)"
  by (simp add: js_less_def)

section \<open>Properties of the runner\<close>

lemma log_fields [simp]:
  "passCount (log out line r) = passCount r"
  "failCount (log out line r) = failCount r"
  "failures (log out line r) = failures r"
  "console (log out line r) = console r @ [(out, line)]"
  by (simp_all add: log_def)

lemma test_fields:
  "passCount (test d f r) = passCount r + (if throws (f ()) then 0 else 1)"
  "failCount (test d f r) = failCount r + (if throws (f ()) then 1 else 0)"
  "failures (test d f r) = failures r @ failed_entries [(d, f)]"
  by (simp_all add: test_def throws_def split: sum.splits)

lemma run_Nil [simp]: "run [] r = r"
  by (simp add: run_def)

lemma run_Cons [simp]: "run (st # prog) r = run prog (execute st r)"
  by (simp add: run_def)

lemma run_append: "run (prog @ prog') r = run prog' (run prog r)"
  by (simp add: run_def)

lemma failing_le: "failing prog \<le> registered prog"
  by (simp add: failing_def registered_def)

lemma registered_simps [simp]:
  "registered [] = 0"
  "registered (Log line # prog) = registered prog"
  "registered (Test d f # prog) = Suc (registered prog)"
  by (simp_all add: registered_def)

lemma failing_simps [simp]:
  "failing [] = 0"
  "failing (Log line # prog) = failing prog"
  "failing (Test d f # prog) = (if throws (f ()) then Suc (failing prog) else failing prog)"
  by (simp_all add: failing_def)

lemma failed_entries_Cons:
  "failed_entries (c # cs) = failed_entries [c] @ failed_entries cs"
  by (cases c) (simp split: sum.splits)

lemma failed_entries_append:
  "failed_entries (cs @ ds) = failed_entries cs @ failed_entries ds"
proof (induction cs)
  case Nil
  show ?case by simp
next
  case (Cons c cs)
  show ?case
    using failed_entries_Cons [of c "cs @ ds"] failed_entries_Cons [of c cs]
    by (simp add: Cons.IH)
qed

lemma length_failed_entries:
  "length (failed_entries cs) = length (filter (\<lambda>(d, f). throws (f ())) cs)"
  by (induction cs) (auto simp: throws_def split: sum.splits)

lemma run_failCount: "failCount (run prog r) = failCount r + failing prog"
proof (induction prog arbitrary: r)
  case Nil
  show ?case by simp
next
  case (Cons st prog)
  show ?case
    by (cases st) (simp_all add: Cons.IH test_fields)
qed

lemma run_passCount:
  "passCount (run prog r) = passCount r + (registered prog - failing prog)"
proof (induction prog arbitrary: r)
  case Nil
  show ?case by simp
next
  case (Cons st prog)
  have "failing prog \<le> registered prog" by (rule failing_le)
  then show ?case
    by (cases st) (simp_all add: Cons.IH test_fields Suc_diff_le)
qed

lemma run_failures:
  "failures (run prog r) = failures r @ failed_entries (cases_of prog)"
proof (induction prog arbitrary: r)
  case Nil
  show ?case by simp
next
  case (Cons st prog)
  show ?case
  proof (cases st)
    case (Log line)
    then show ?thesis by (simp add: Cons.IH)
  next
    case (Test d f)
    then show ?thesis
      using failed_entries_Cons [of "(d, f)" "cases_of prog"]
      by (simp add: Cons.IH test_fields)
  qed
qed

lemma foldl_log_fields:
  "passCount (foldl (\<lambda>r (d, e). log out (g d e) r) r xs) = passCount r"
  "failCount (foldl (\<lambda>r (d, e). log out (g d e) r) r xs) = failCount r"
  "failures (foldl (\<lambda>r (d, e). log out (g d e) r) r xs) = failures r"
  "console (foldl (\<lambda>r (d, e). log out (g d e) r) r xs)
     = console r @ map (\<lambda>(d, e). (out, g d e)) xs"
  by (induction xs arbitrary: r; simp split: prod.splits)+

lemma summary_fields:
  "passCount (fst (summary r)) = passCount r"
  "failCount (fst (summary r)) = failCount r"
  "failures (fst (summary r)) = failures r"
  "snd (summary r) = (if failCount r > 0 then 1 else 0)"
  by (simp_all add: summary_def Let_def foldl_log_fields)

lemma summary_console:
  "console (fst (summary r)) =
     console r
     @ [(Stdout, newline # ''=== Test Summary ===''),
        (Stdout, check_mark @ '' Passed: '' @ string_of_nat (passCount r)),
        (Stdout, cross_mark @ '' Failed: '' @ string_of_nat (failCount r)),
        (Stdout, ''Total: '' @ string_of_nat (passCount r + failCount r))]
     @ (if failCount r > 0
        then (Stdout, newline # ''Failures:'')
             # map (\<lambda>(d, e). (Stdout, ''  - '' @ d @ '': '' @ e)) (failures r)
        else [(Stdout, newline # check_mark @ '' All tests passed!'')])"
  by (simp add: summary_def Let_def foldl_log_fields)

text \<open>
  Claim C1. A run of the script that registers \<open>N\<close> test cases of which \<open>M\<close> throw ends
  with \<^verbatim>\<open>passCount\<close> \<open>= N - M\<close> and \<^verbatim>\<open>failCount\<close> \<open>= M\<close>, and prints both numbers in
  its summary. Every failing case is caught and recorded, and the cases after it still run:
  \<^verbatim>\<open>failures\<close> holds the description and message of each failing case, in order. The
  exit code is \<open>1\<close> if \<open>M > 0\<close> and \<open>0\<close> otherwise.
\<close>

theorem script_counts:
  "passCount (fst (script prog)) = registered prog - failing prog
   \<and> failCount (fst (script prog)) = failing prog
   \<and> failing prog \<le> registered prog
   \<and> failures (fst (script prog)) = failed_entries (cases_of prog)
   \<and> snd (script prog) = (if failing prog > 0 then 1 else 0)
   \<and> (Stdout, check_mark @ '' Passed: '' @ string_of_nat (registered prog - failing prog))
        \<in> set (console (fst (script prog)))
   \<and> (Stdout, cross_mark @ '' Failed: '' @ string_of_nat (failing prog))
        \<in> set (console (fst (script prog)))"
  by (simp add: script_def summary_fields summary_console run_passCount run_failCount
      run_failures initial_def failing_le)

theorem script_counts_witness:
  "passCount (fst (script
      [Log ''Scripts:'', Test ''a'' (\<lambda>u. Inr ()), Test ''b'' (\<lambda>u. Inl (Error ''boom'')),
       Test ''c'' (\<lambda>u. Inr ())])) = 2
   \<and> failCount (fst (script
      [Log ''Scripts:'', Test ''a'' (\<lambda>u. Inr ()), Test ''b'' (\<lambda>u. Inl (Error ''boom'')),
       Test ''c'' (\<lambda>u. Inr ())])) = 1
   \<and> failures (fst (script
      [Log ''Scripts:'', Test ''a'' (\<lambda>u. Inr ()), Test ''b'' (\<lambda>u. Inl (Error ''boom'')),
       Test ''c'' (\<lambda>u. Inr ())])) = [(''b'', ''boom'')]
   \<and> snd (script
      [Log ''Scripts:'', Test ''a'' (\<lambda>u. Inr ()), Test ''b'' (\<lambda>u. Inl (Error ''boom'')),
       Test ''c'' (\<lambda>u. Inr ())]) = 1"
  using script_counts [of "[Log ''Scripts:'', Test ''a'' (\<lambda>u. Inr ()),
      Test ''b'' (\<lambda>u. Inl (Error ''boom'')), Test ''c'' (\<lambda>u. Inr ())]"]
  by (simp add: throws_def)

text \<open>
  Claim C10. After every completed call of \<^verbatim>\<open>test\<close>, whatever statements ran before it:
  \<^verbatim>\<open>passCount + failCount\<close> is the number of test cases executed so far, \<^verbatim>\<open>failures\<close>
  has exactly \<^verbatim>\<open>failCount\<close> entries, and these are the descriptions and error messages
  of the failed cases in execution order.
\<close>

theorem runner_invariant:
  "passCount (test description testFn (run prog initial))
     + failCount (test description testFn (run prog initial)) = Suc (registered prog)
   \<and> length (failures (test description testFn (run prog initial)))
       = failCount (test description testFn (run prog initial))
   \<and> failures (test description testFn (run prog initial))
       = failed_entries (cases_of prog @ [(description, testFn)])"
  using failing_le [of prog]
  by (simp add: test_fields run_passCount run_failCount run_failures initial_def
      failed_entries_append length_failed_entries failing_def throws_def split: sum.splits)

theorem runner_invariant_witness:
  "passCount (test ''c'' (\<lambda>u. Inl (TypeError ''t''))
       (run [Test ''a'' (\<lambda>u. Inr ()), Log ''Scripts:'', Test ''b'' (\<lambda>u. Inl (Error ''boom''))]
            initial))
     + failCount (test ''c'' (\<lambda>u. Inl (TypeError ''t''))
       (run [Test ''a'' (\<lambda>u. Inr ()), Log ''Scripts:'', Test ''b'' (\<lambda>u. Inl (Error ''boom''))]
            initial)) = 3
   \<and> failures (test ''c'' (\<lambda>u. Inl (TypeError ''t''))
       (run [Test ''a'' (\<lambda>u. Inr ()), Log ''Scripts:'', Test ''b'' (\<lambda>u. Inl (Error ''boom''))]
            initial)) = [(''b'', ''boom''), (''c'', ''t'')]"
  using runner_invariant [of "''c''" "\<lambda>u. Inl (TypeError ''t'')"
      "[Test ''a'' (\<lambda>u. Inr ()), Log ''Scripts:'', Test ''b'' (\<lambda>u. Inl (Error ''boom''))]"]
  by simp

section \<open>Properties of the matchers\<close>

lemma toBe_same: "v \<noteq> JNum NaN \<Longrightarrow> toBe v v = Inr ()"
  by (simp add: toBe_def strict_equal_refl)

lemma toBe_mismatch:
  "\<not> strict_equal a b \<Longrightarrow>
   toBe a b = Inl (Error (''Expected '' @ shown b @ '', but got '' @ shown a))"
  by (simp add: toBe_def)

text \<open>
  Claim C3. For JSON-serializable values \<open>a\<close> and \<open>b\<close>: \<^verbatim>\<open>expect(a).toBe(a)\<close> does
  not throw; when \<open>b\<close> differs from \<open>a\<close>, \<^verbatim>\<open>expect(a).toBe(b)\<close> throws an error whose
  message contains the JSON text of \<open>a\<close> and the JSON text of \<open>b\<close>. Two values differ when
  they are not the same primitive value or not the same heap cell; two structurally equal
  objects at different addresses differ.
\<close>

theorem toBe_spec:
  assumes "is_json a" and "is_json b"
  shows "toBe a a = Inr ()
    \<and> (a \<noteq> b \<and> consistent a b \<longrightarrow>
         (\<exists>sa sb m. JSON_stringify a = Some sa \<and> JSON_stringify b = Some sb
            \<and> toBe a b = Inl (Error m) \<and> sublist sa m \<and> sublist sb m))"
proof (intro conjI impI)
  show "toBe a a = Inr ()"
    using assms(1) by (simp add: toBe_same is_json_not_NaN)
next
  assume d: "a \<noteq> b \<and> consistent a b"
  let ?m = "''Expected '' @ shown b @ '', but got '' @ shown a"
  have "toBe a b = Inl (Error ?m)"
    using d by (simp add: toBe_mismatch strict_equal_differs)
  moreover have "sublist (shown a) ?m"
    using sublist_append_leftI [of "shown a" "''Expected '' @ shown b @ '', but got ''"]
    by simp
  moreover have "sublist (shown b) ?m"
    using sublist_appendI [of "shown b" "''Expected ''" "'', but got '' @ shown a"]
    by simp
  ultimately show "\<exists>sa sb m. JSON_stringify a = Some sa \<and> JSON_stringify b = Some sb
            \<and> toBe a b = Inl (Error m) \<and> sublist sa m \<and> sublist sb m"
    using assms by (auto simp: is_json_stringify)
qed

theorem toBe_spec_witness:
  "toBe (JStr ''18.2.0'') (JStr ''18.2.0'') = Inr ()
   \<and> (\<exists>sa sb m. JSON_stringify (JStr ''18.2.0'') = Some sa
         \<and> JSON_stringify (JObj 0 [(''v'', JNum (Fin 1))]) = Some sb
         \<and> toBe (JStr ''18.2.0'') (JObj 0 [(''v'', JNum (Fin 1))]) = Inl (Error m)
         \<and> sublist sa m \<and> sublist sb m)
   \<and> toBe (JObj 0 [(''v'', JNum (Fin 1))]) (JObj 0 [(''v'', JNum (Fin 1))]) = Inr ()
   \<and> (\<exists>sa sb m. JSON_stringify (JObj 0 [(''v'', JNum (Fin 1))]) = Some sa
         \<and> JSON_stringify (JObj 1 [(''v'', JNum (Fin 1))]) = Some sb
         \<and> toBe (JObj 0 [(''v'', JNum (Fin 1))]) (JObj 1 [(''v'', JNum (Fin 1))])
             = Inl (Error m)
         \<and> sublist sa m \<and> sublist sb m)"
  using toBe_spec [of "JStr ''18.2.0''" "JObj 0 [(''v'', JNum (Fin 1))]"]
    toBe_spec [of "JObj 0 [(''v'', JNum (Fin 1))]" "JObj 1 [(''v'', JNum (Fin 1))]"]
  by simp

lemma toHaveProperty_falsy:
  "\<not> truthy v \<Longrightarrow>
   toHaveProperty v k = Inl (Error (''Expected object to have property '' @ k))"
  by (simp add: toHaveProperty_def)

lemma js_in_falsy: "\<not> truthy v \<Longrightarrow> js_in k v \<noteq> Inr True"
  by (auto simp: falsy_iff)

lemma toHaveProperty_throws_iff:
  "throws (toHaveProperty v k) \<longleftrightarrow> nullish v \<or> js_in k v \<noteq> Inr True"
proof (cases "truthy v")
  case False
  then show ?thesis
    using js_in_falsy [of v k] by (simp add: toHaveProperty_falsy throws_def)
next
  case True
  then have "\<not> nullish v" by (cases v) simp_all
  with True show ?thesis
    by (cases "js_in k v") (auto simp: toHaveProperty_def throws_def)
qed

lemma k_not_inherited: "''k'' \<notin> set Object_prototype_names"
  by (simp add: Object_prototype_names_def)

text \<open>
  Claim C4, as amended. \<^verbatim>\<open>expect({k: 1}).toHaveProperty("k")\<close> does not throw; on
  \<^verbatim>\<open>{}\<close>, on \<^verbatim>\<open>null\<close> and on \<^verbatim>\<open>undefined\<close> it throws. In general
  \<^verbatim>\<open>toHaveProperty\<close> throws exactly when the wrapped value is falsy or \<^verbatim>\<open>prop in actual\<close>
  does not yield true. On an object that is when the key is neither an own property nor
  inherited from \<^verbatim>\<open>Object.prototype\<close>; on a truthy primitive the operator raises, so the
  matcher throws for every key.
\<close>

theorem toHaveProperty_spec:
  "toHaveProperty (JObj a [(''k'', JNum (Fin 1))]) ''k'' = Inr ()
   \<and> throws (toHaveProperty (JObj a []) ''k'')
   \<and> throws (toHaveProperty JNull ''k'')
   \<and> throws (toHaveProperty JUndefined ''k'')
   \<and> (throws (toHaveProperty v k) \<longleftrightarrow> (\<not> truthy v \<or> js_in k v \<noteq> Inr True))
   \<and> (throws (toHaveProperty (JObj b kvs) k)
        \<longleftrightarrow> k \<notin> fst ` set kvs \<and> k \<notin> set Object_prototype_names)
   \<and> throws (toHaveProperty (JStr s) k)
   \<and> throws (toHaveProperty (JNum n) k)
   \<and> throws (toHaveProperty (JBool c) k)"
proof (intro conjI)
  show "toHaveProperty (JObj a [(''k'', JNum (Fin 1))]) ''k'' = Inr ()"
    by (simp add: toHaveProperty_def)
  show "throws (toHaveProperty (JObj a []) ''k'')"
    by (simp add: toHaveProperty_throws_iff k_not_inherited)
  show "throws (toHaveProperty JNull ''k'')"
    by (simp add: toHaveProperty_throws_iff)
  show "throws (toHaveProperty JUndefined ''k'')"
    by (simp add: toHaveProperty_throws_iff)
  show "throws (toHaveProperty v k) \<longleftrightarrow> (\<not> truthy v \<or> js_in k v \<noteq> Inr True)"
    using toHaveProperty_throws_iff [of v k] js_in_falsy [of v k]
    by (cases v) auto
  show "throws (toHaveProperty (JObj b kvs) k)
          \<longleftrightarrow> k \<notin> fst ` set kvs \<and> k \<notin> set Object_prototype_names"
    by (simp add: toHaveProperty_throws_iff)
  show "throws (toHaveProperty (JStr s) k)"
    by (simp add: toHaveProperty_throws_iff)
  show "throws (toHaveProperty (JNum n) k)"
    by (simp add: toHaveProperty_throws_iff)
  show "throws (toHaveProperty (JBool c) k)"
    by (simp add: toHaveProperty_throws_iff)
qed

theorem toHaveProperty_spec_witness:
  "toHaveProperty (JObj 7 [(''k'', JNum (Fin 1))]) ''k'' = Inr ()
   \<and> throws (toHaveProperty (JObj 7 []) ''k'')
   \<and> throws (toHaveProperty JNull ''k'')
   \<and> throws (toHaveProperty JUndefined ''k'')
   \<and> throws (toHaveProperty (JObj 0 [(''name'', JStr ''pkg'')]) ''version'')
   \<and> \<not> throws (toHaveProperty (JObj 0 [(''name'', JStr ''pkg'')]) ''name'')"
  using toHaveProperty_spec [of 7 "JObj 0 [(''name'', JStr ''pkg'')]" "''version''" 0 "[]"
      "''abc''" "Fin 1" True]
    toHaveProperty_spec [of 7 "JObj 0 [(''name'', JStr ''pkg'')]" "''name''" 0 "[]"
      "''abc''" "Fin 1" True]
  by (simp add: Object_prototype_names_def)

text \<open>
  Claim C4 as stated says that the matcher fails exactly when the wrapped value is nullish
  or lacks the key. The empty string is not nullish and has the property \<^verbatim>\<open>length\<close>,
  which reads as \<open>0\<close>; the matcher throws on it all the same, because the empty string is
  falsy.
\<close>

theorem toHaveProperty_counterexample:
  "throws (toHaveProperty (JStr []) ''length'')
   \<and> \<not> nullish (JStr [])
   \<and> js_get (JStr []) ''length'' = Inr (JNum (Fin 0))"
  by (simp add: toHaveProperty_def throws_def)

lemma ends_bounds: "j \<in> set (ends r s i) \<Longrightarrow> i \<le> j \<and> (j \<le> length s \<or> j = i)"
proof (induction r s i arbitrary: j rule: ends.induct)
  case (8 r1 r2 s i)
  from "8.prems" obtain k where k: "k \<in> set (ends r1 s i)"
    and j: "j \<in> set (ends r2 s k)"
    by auto
  from k have "i \<le> k \<and> (k \<le> length s \<or> k = i)" by (rule "8.IH"(1))
  moreover from k j have "k \<le> j \<and> (j \<le> length s \<or> j = k)" by (rule "8.IH"(2))
  ultimately show ?case by auto
next
  case (9 r s i)
  from "9.prems" consider "j = i"
    | k where "k \<in> set (ends r s i)" and "i < k" and "k \<le> length s"
        and "j \<in> set (ends (Star r) s k)"
    by (auto simp: ends.simps(9) [of r s i])
  then show ?case
  proof cases
    case 1
    then show ?thesis by simp
  next
    case 2
    then have "k \<le> j \<and> (j \<le> length s \<or> j = k)"
      using "9.IH"(2) [of k j] by simp
    with 2 show ?thesis by auto
  qed
next
  case (10 r s i)
  from "10.prems" obtain k where k: "k \<in> set (ends r s i)"
    and j: "j \<in> set (ends (Star r) s k)"
    by auto
  from k have "i \<le> k \<and> (k \<le> length s \<or> k = i)" by (rule "10.IH"(1))
  moreover from k j have "k \<le> j \<and> (j \<le> length s \<or> j = k)" by (rule "10.IH"(2))
  ultimately show ?case by auto
qed (simp_all split: if_splits)

lemma ends_sound: "j \<in> set (ends r s i) \<Longrightarrow> matches r s i j"
proof (induction r s i arbitrary: j rule: ends.induct)
  case (5 cs s i)
  then show ?case by (auto simp: list_ex_iff split: if_splits intro: matches.intros)
next
  case (8 r1 r2 s i)
  from "8.prems" obtain k where "k \<in> set (ends r1 s i)"
    and "j \<in> set (ends r2 s k)"
    by auto
  with "8.IH" show ?case by (blast intro: m_Seq)
next
  case (9 r s i)
  from "9.prems" consider "j = i"
    | k where "k \<in> set (ends r s i)" and "i < k" and "k \<le> length s"
        and "j \<in> set (ends (Star r) s k)"
    by (auto simp: ends.simps(9) [of r s i])
  then show ?case
  proof cases
    case 1
    then show ?thesis by (simp add: m_Star0)
  next
    case 2
    with "9.IH" show ?thesis by (auto intro: m_Star)
  qed
next
  case (10 r s i)
  from "10.prems" obtain k where "k \<in> set (ends r s i)"
    and "j \<in> set (ends (Star r) s k)"
    by auto
  with "10.IH" show ?case by (blast intro: m_Plus)
qed (auto split: if_splits intro: matches.intros)

lemma ends_complete: "matches r s i j \<Longrightarrow> j \<in> set (ends r s i)"
proof (induction rule: matches.induct)
  case (m_Set i s x cs)
  then show ?case by (auto simp: list_ex_iff)
next
  case (m_Seq r1 s i j r2 k)
  then show ?case by auto
next
  case (m_Star0 r s i)
  show ?case by (simp add: ends.simps(9) [of r s i])
next
  case (m_Star r s i j k)
  show ?case
  proof (cases "j = i")
    case True
    with m_Star show ?thesis by simp
  next
    case False
    with m_Star.IH(1) have "i < j \<and> j \<le> length s"
      using ends_bounds [of j r s i] by auto
    with m_Star.IH show ?thesis by (auto simp: ends.simps(9) [of r s i])
  qed
next
  case (m_Plus r s i j k)
  then show ?case by auto
qed simp_all

lemma matches_iff_ends [code]: "matches r s i j \<longleftrightarrow> List.member (ends r s i) j"
  using ends_sound [of j r s i] ends_complete [of r s i j] by auto

lemma regex_test_iff: "regex_test r s \<longleftrightarrow> (\<exists>i j. i \<le> length s \<and> matches r s i j)"
proof
  assume "regex_test r s"
  then obtain i where "i < Suc (length s)" and "ends r s i \<noteq> []"
    by (auto simp: regex_test_def list_ex_iff simp del: upt_Suc)
  then have "i \<le> length s" by simp
  from \<open>ends r s i \<noteq> []\<close> obtain j where "j \<in> set (ends r s i)"
    by (cases "ends r s i") auto
  with \<open>i \<le> length s\<close> show "\<exists>i j. i \<le> length s \<and> matches r s i j"
    by (blast intro: ends_sound)
next
  assume "\<exists>i j. i \<le> length s \<and> matches r s i j"
  then obtain i j where "i \<le> length s" and "matches r s i j" by blast
  then have "j \<in> set (ends r s i)" by (simp add: ends_complete)
  then have "ends r s i \<noteq> []" by auto
  with \<open>i \<le> length s\<close> show "regex_test r s"
    by (auto simp: regex_test_def list_ex_iff simp del: upt_Suc)
qed

lemma regex_test_Lit: "regex_test (Lit c) s \<longleftrightarrow> c \<in> set s"
proof -
  have "regex_test (Lit c) s \<longleftrightarrow> (\<exists>i < length s. s ! i = c)"
    by (auto simp: regex_test_def list_ex_iff)
  then show ?thesis by (auto simp: in_set_conv_nth)
qed

lemma toMatch_throws_iff: "throws (toMatch (JStr s) r) \<longleftrightarrow> \<not> regex_test r s"
  by (simp add: toMatch_def throws_def)

text \<open>
  Claim C5. \<^verbatim>\<open>expect("x").toMatch(/x/)\<close> does not throw; \<^verbatim>\<open>expect("y").toMatch(/x/)\<close>
  throws an error whose message gives the value and the pattern. \<^verbatim>\<open>toMatch\<close> throws
  exactly when the regular expression does not match the wrapped string: when
  \<^verbatim>\<open>pattern.test\<close> is false, which is when the pattern matches at no position.
\<close>

theorem toMatch_spec:
  "toMatch (JStr ''x'') letter_x = Inr ()
   \<and> toMatch (JStr ''y'') letter_x
       = Inl (Error (''Expected '' @ [dquote] @ ''y'' @ [dquote] @ '' to match /x/''))
   \<and> (throws (toMatch (JStr s) r) \<longleftrightarrow> \<not> regex_test r s)
   \<and> (throws (toMatch (JStr s) r) \<longleftrightarrow> \<not> (\<exists>i j. i \<le> length s \<and> matches r s i j))"
proof (intro conjI)
  show "toMatch (JStr ''x'') letter_x = Inr ()"
    by (simp add: toMatch_def letter_x_def regex_test_Lit)
  show "toMatch (JStr ''y'') letter_x
          = Inl (Error (''Expected '' @ [dquote] @ ''y'' @ [dquote] @ '' to match /x/''))"
    by (simp add: toMatch_def letter_x_def regex_test_Lit shown_def json_quote_def
        json_escape_def regex_to_string_def dquote_def backslash_def)
  show "throws (toMatch (JStr s) r) \<longleftrightarrow> \<not> regex_test r s"
    by (rule toMatch_throws_iff)
  show "throws (toMatch (JStr s) r) \<longleftrightarrow> \<not> (\<exists>i j. i \<le> length s \<and> matches r s i j)"
    using toMatch_throws_iff [of s r] regex_test_iff [of r s] by simp
qed

theorem toMatch_spec_witness:
  "throws (toMatch (JStr ''15.5.10'') caret_or_tilde)
   \<and> \<not> throws (toMatch (JStr ''^15.5.10'') caret_or_tilde)"
proof -
  have "\<not> regex_test caret_or_tilde ''15.5.10''" by code_simp
  moreover have "regex_test caret_or_tilde ''^15.5.10''" by code_simp
  ultimately show ?thesis
    using toMatch_spec [of "''15.5.10''" caret_or_tilde]
      toMatch_spec [of "''^15.5.10''" caret_or_tilde]
    by simp
qed

text \<open>
  Claim C8. For every falsy wrapped value and every key, \<^verbatim>\<open>toHaveProperty\<close> throws its
  error. The falsy values include \<open>0\<close>, the empty string and \<^verbatim>\<open>false\<close>, which are not
  nullish, and the key may be one that the boxed value would have, such as \<^verbatim>\<open>length\<close>
  for a string.
\<close>

theorem toHaveProperty_falsy_spec:
  "\<not> truthy v \<Longrightarrow>
     toHaveProperty v k = Inl (Error (''Expected object to have property '' @ k))"
  by (simp add: toHaveProperty_def)

theorem toHaveProperty_falsy_spec_witness:
  "\<not> truthy (JNum (Fin 0)) \<and> \<not> nullish (JNum (Fin 0))
   \<and> toHaveProperty (JNum (Fin 0)) ''toString''
       = Inl (Error ''Expected object to have property toString'')
   \<and> \<not> truthy (JStr []) \<and> \<not> nullish (JStr [])
   \<and> toHaveProperty (JStr []) ''length''
       = Inl (Error ''Expected object to have property length'')
   \<and> \<not> truthy (JBool False) \<and> \<not> nullish (JBool False)
   \<and> toHaveProperty (JBool False) ''valueOf''
       = Inl (Error ''Expected object to have property valueOf'')"
  using toHaveProperty_falsy_spec [of "JNum (Fin 0)" "''toString''"]
    toHaveProperty_falsy_spec [of "JStr []" "''length''"]
    toHaveProperty_falsy_spec [of "JBool False" "''valueOf''"]
  by simp

lemma sequence_Inl: "sequence ms = Inl e \<Longrightarrow> Inl e \<in> set ms"
  by (induction ms) (auto split: sum.splits)

lemma to_string_error:
  "to_string v = Inl e \<Longrightarrow> e = TypeError ''Cannot convert object to primitive value''"
proof (induction v arbitrary: e rule: to_string.induct)
  case (6 a xs)
  from "6.prems"
  have "sequence (map (\<lambda>x. if nullish x then Inr [] else to_string x) xs) = Inl e"
    by (simp add: then_do_def split: sum.splits)
  then have "Inl e \<in> set (map (\<lambda>x. if nullish x then Inr [] else to_string x) xs)"
    by (rule sequence_Inl)
  then obtain x where "x \<in> set xs" and "\<not> nullish x" and "to_string x = Inl e"
    by (auto split: if_splits)
  then show ?case by (rule "6.IH")
next
  case (7 a kvs)
  then show ?case by (simp split: if_splits)
qed simp_all

lemma js_includes_error: "js_includes actual item = Inl e \<Longrightarrow> e \<noteq> Error m"
proof (cases actual)
  case (JStr s)
  assume "js_includes actual item = Inl e"
  with JStr have "to_string item = Inl e"
    by (simp add: then_do_def split: sum.splits)
  then show ?thesis using to_string_error [of item e] by simp
qed auto

text \<open>
  Claim C9, as amended. \<^verbatim>\<open>expect(actual).not.toContain(item)\<close> does not throw when
  \<^verbatim>\<open>actual\<close> is falsy. It throws exactly when \<^verbatim>\<open>actual\<close> is truthy and
  \<^verbatim>\<open>actual.includes(item)\<close> is true or itself raises, as it does on a truthy value without
  that method. What it throws is its own error, \<^verbatim>\<open>Expected array not to contain\<close>
  followed by the string of the item, exactly when \<^verbatim>\<open>actual\<close> is truthy,
  \<^verbatim>\<open>actual.includes(item)\<close> is true and the item has a string; an item that cannot be
  converted to a string, such as an object parsed from \<^verbatim>\<open>{"toString": 1}\<close>, makes the
  template literal of the message raise a \<^verbatim>\<open>TypeError\<close> instead.
\<close>

theorem not_toContain_spec:
  "(\<not> truthy actual \<longrightarrow> not_toContain actual item = Inr ())
   \<and> (throws (not_toContain actual item)
        \<longleftrightarrow> truthy actual \<and> js_includes actual item \<noteq> Inr False)
   \<and> (not_toContain actual item = Inl (Error m)
        \<longleftrightarrow> truthy actual \<and> js_includes actual item = Inr True
            \<and> (\<exists>t. to_string item = Inr t \<and> m = ''Expected array not to contain '' @ t))"
proof (cases "js_includes actual item")
  case (Inl e)
  then have "e \<noteq> Error m" by (rule js_includes_error)
  with Inl show ?thesis
    by (auto simp: not_toContain_def throws_def)
next
  case (Inr found)
  show ?thesis
  proof (cases "to_string item")
    case (Inl e)
    then have "e \<noteq> Error m" using to_string_error [of item e] by simp
    with Inl Inr show ?thesis
      by (auto simp: not_toContain_def throws_def)
  next
    case (Inr t)
    with \<open>js_includes actual item = Inr found\<close> show ?thesis
      by (auto simp: not_toContain_def throws_def)
  qed
qed

theorem not_toContain_spec_witness:
  "not_toContain JNull (JStr ''jest'') = Inr ()
   \<and> not_toContain (JStr []) (JStr ''jest'') = Inr ()
   \<and> not_toContain (JArr 0 [JStr ''next'', JStr ''jest'']) (JStr ''jest'')
       = Inl (Error ''Expected array not to contain jest'')
   \<and> not_toContain (JArr 0 [JStr ''next'', JStr ''react'']) (JStr ''jest'') = Inr ()
   \<and> throws (not_toContain (JArr 0 [JObj 1 [(''toString'', JNum (Fin 1))]])
                (JObj 1 [(''toString'', JNum (Fin 1))]))
   \<and> not_toContain (JArr 0 [JObj 1 [(''toString'', JNum (Fin 1))]])
                (JObj 1 [(''toString'', JNum (Fin 1))])
       \<noteq> Inl (Error ''Expected array not to contain [object Object]'')"
  using not_toContain_spec [of JNull "JStr ''jest''" "''Expected array not to contain jest''"]
    not_toContain_spec [of "JStr []" "JStr ''jest''" "''Expected array not to contain jest''"]
    not_toContain_spec [of "JArr 0 [JStr ''next'', JStr ''jest'']" "JStr ''jest''"
      "''Expected array not to contain jest''"]
    not_toContain_spec [of "JArr 0 [JStr ''next'', JStr ''react'']" "JStr ''jest''"
      "''Expected array not to contain jest''"]
    not_toContain_spec [of "JArr 0 [JObj 1 [(''toString'', JNum (Fin 1))]]"
      "JObj 1 [(''toString'', JNum (Fin 1))]"
      "''Expected array not to contain [object Object]''"]
  by (simp add: not_toContain_def throws_def)

text \<open>
  Claim C9 as stated says that the matcher throws only when \<^verbatim>\<open>actual\<close> is truthy and
  \<^verbatim>\<open>actual.includes(item)\<close> holds. On the number \<open>5\<close> it throws although the number has
  no \<^verbatim>\<open>includes\<close> to hold: the call raises a \<^verbatim>\<open>TypeError\<close>.
\<close>

theorem not_toContain_counterexample:
  "throws (not_toContain (JNum (Fin 5)) (JNum (Fin 1)))
   \<and> \<not> (truthy (JNum (Fin 5)) \<and> js_includes (JNum (Fin 5)) (JNum (Fin 1)) = Inr True)"
  by (simp add: not_toContain_def throws_def)

section \<open>Properties of the checks on the manifest\<close>

lemma digit_char_props:
  assumes "k < 10"
  shows "is_digit (digit_char k)" and "digit_value (digit_char k) = int k"
    and "\<not> is_space (digit_char k)" and "digit_char k \<noteq> CHR ''.''"
    and "digit_char k \<noteq> CHR ''+''" and "digit_char k \<noteq> CHR ''-''"
    and "digit_char k \<noteq> CHR ''^''" and "digit_char k \<noteq> CHR ''~''"
proof -
  from assms have "k \<in> {0, 1, 2, 3, 4, 5, 6, 7, 8, 9}" by auto
  then show "is_digit (digit_char k)" and "digit_value (digit_char k) = int k"
    and "\<not> is_space (digit_char k)" and "digit_char k \<noteq> CHR ''.''"
    and "digit_char k \<noteq> CHR ''+''" and "digit_char k \<noteq> CHR ''-''"
    and "digit_char k \<noteq> CHR ''^''" and "digit_char k \<noteq> CHR ''~''"
    by (auto simp: digit_char_def is_digit_def digit_value_def is_space_def)
qed

lemma plain_digit_char: "k < 10 \<Longrightarrow> plain (digit_char k)"
  by (simp add: plain_def digit_char_props)

lemma string_of_nat_plain: "string_of_nat n \<noteq> [] \<and> list_all plain (string_of_nat n)"
proof (induction n rule: string_of_nat.induct)
  case (1 n)
  show ?case
  proof (cases "n < 10")
    case True
    then show ?thesis by (simp add: string_of_nat.simps [of n] plain_digit_char)
  next
    case False
    with 1 show ?thesis by (simp add: string_of_nat.simps [of n] plain_digit_char)
  qed
qed

lemma string_of_nat_value:
  "foldl (\<lambda>a c. 10 * a + digit_value c) 0 (string_of_nat n) = int n"
proof (induction n rule: string_of_nat.induct)
  case (1 n)
  show ?case
  proof (cases "n < 10")
    case True
    then show ?thesis by (simp add: string_of_nat.simps [of n] digit_char_props)
  next
    case False
    with 1 have "foldl (\<lambda>a c. 10 * a + digit_value c) 0 (string_of_nat (n div 10))
        = int (n div 10)"
      by simp
    moreover have "10 * int (n div 10) + int (n mod 10) = int n"
      by presburger
    ultimately show ?thesis
      using False by (simp add: string_of_nat.simps [of n] digit_char_props)
  qed
qed

lemma trim_id:
  assumes "s \<noteq> []" and "\<not> is_space (hd s)" and "\<not> is_space (last s)"
  shows "trim s = s"
proof -
  from assms have "dropWhile is_space s = s" by (cases s) simp_all
  moreover from assms have "dropWhile is_space (rev s) = rev s"
    by (cases "rev s") (simp_all add: last_rev [symmetric] hd_rev)
  ultimately show ?thesis by (simp add: trim_def)
qed

lemma Number_str_string_of_nat: "Number_str (string_of_nat n) = Fin (int n)"
proof -
  let ?s = "string_of_nat n"
  have ne: "?s \<noteq> []" and pl: "list_all plain ?s"
    using string_of_nat_plain [of n] by simp_all
  then have "plain (hd ?s)" and "plain (last ?s)"
    by (simp_all add: list_all_iff)
  then have "trim ?s = ?s"
    using ne by (intro trim_id) (simp_all add: plain_def)
  moreover have "list_all is_digit ?s"
    using pl by (auto simp: list_all_iff plain_def)
  moreover obtain c cs where cs: "?s = c # cs" using ne by (cases ?s) auto
  moreover from cs pl have "c \<noteq> CHR ''+''" "c \<noteq> CHR ''-''" by (simp_all add: plain_def)
  ultimately show ?thesis
    using string_of_nat_value [of n] by (simp add: Number_str_def decimal_def)
qed

lemma split_on_none: "sep \<notin> set xs \<Longrightarrow> split_on sep xs = [xs]"
  by (induction xs) auto

lemma split_on_first:
  "sep \<notin> set xs \<Longrightarrow> split_on sep (xs @ sep # ys) = xs # split_on sep ys"
  by (induction xs) auto

lemma no_dot: "CHR ''.'' \<notin> set (string_of_nat n)"
  using string_of_nat_plain [of n] by (auto simp: list_all_iff plain_def)

lemma version_numbers_semver:
  "version_numbers
     (string_of_nat M @ CHR ''.'' # string_of_nat m @ CHR ''.'' # string_of_nat p)
     = [JNum (Fin (int M)), JNum (Fin (int m)), JNum (Fin (int p))]"
  by (simp add: version_numbers_def split_on_first split_on_none no_dot
      Number_str_string_of_nat)

lemma ends_caret_or_tilde:
  "ends caret_or_tilde s i =
     (if i = 0 \<and> s \<noteq> [] \<and> (hd s = CHR ''^'' \<or> hd s = CHR ''~'') then [1] else [])"
  by (cases s) (auto simp: caret_or_tilde_def)

lemma filter_only_zero:
  "(\<And>i. P i \<Longrightarrow> i = 0) \<Longrightarrow> filter P [0..<Suc n] = (if P 0 then [0] else [])"
proof -
  assume a: "\<And>i. P i \<Longrightarrow> i = 0"
  have "[0..<Suc n] = 0 # [1..<Suc n]" by (simp add: upt_rec)
  moreover have "filter P [1..<Suc n] = []"
    using a by (auto simp: filter_empty_conv)
  ultimately show ?thesis by simp
qed

lemma replace_caret_or_tilde:
  "replace_empty s caret_or_tilde =
     (if s \<noteq> [] \<and> (hd s = CHR ''^'' \<or> hd s = CHR ''~'') then tl s else s)"
proof -
  have "filter (\<lambda>i. ends caret_or_tilde s i \<noteq> []) [0..<Suc (length s)]
      = (if ends caret_or_tilde s 0 \<noteq> [] then [0] else [])"
    by (rule filter_only_zero) (simp add: ends_caret_or_tilde split: if_splits)
  then show ?thesis
    by (cases s) (auto simp: replace_empty_def first_match_def ends_caret_or_tilde)
qed

lemma clean_semver:
  assumes "range_prefix pre"
  shows "replace_empty (pre @ string_of_nat M @ rest) caret_or_tilde
           = string_of_nat M @ rest"
proof -
  obtain c cs where cs: "string_of_nat M = c # cs"
    using string_of_nat_plain [of M] by (cases "string_of_nat M") auto
  then have "plain c" using string_of_nat_plain [of M] by simp
  then have "c \<noteq> CHR ''^''" "c \<noteq> CHR ''~''" by (simp_all add: plain_def)
  with assms cs show ?thesis
    by (auto simp: replace_caret_or_tilde range_prefix_def)
qed

lemma at_least_numbers:
  "toBeGreaterThanOrEqual (JNum (Fin x)) (JNum (Fin y)) =
     (if x < y
      then Inl (Error (''Expected '' @ number_to_string (Fin x)
                       @ '' to be greater than or equal to '' @ number_to_string (Fin y)))
      else Inr ())"
  by (simp add: toBeGreaterThanOrEqual_def)

text \<open>The two vulnerability tests on a manifest whose \<^verbatim>\<open>next\<close> is a version range
  \<open>M.m.p\<close> with or without a caret or tilde: each throws exactly when the version is below
  \<open>15.5.10\<close>.\<close>

lemma semver_checks:
  assumes "js_get pj ''dependencies'' = Inr deps"
    and "js_get deps ''next'' =
      Inr (JStr (pre @ string_of_nat M @ ''.'' @ string_of_nat m @ ''.'' @ string_of_nat p))"
    and "range_prefix pre"
  shows "throws (test_next_version pj) \<longleftrightarrow> \<not> at_least_15_5_10 M m p"
    and "throws (test_not_vulnerable pj) \<longleftrightarrow> \<not> at_least_15_5_10 M m p"
  using assms
  by (auto simp: test_next_version_def test_not_vulnerable_def clean_semver
      version_numbers_semver element_def at_least_numbers toBe_def at_least_15_5_10_def
      throws_def Let_def)

lemma clean_15_5_10: "replace_empty ''^15.5.10'' caret_or_tilde = ''15.5.10''"
  by code_simp

lemma clean_15_4_0: "replace_empty ''^15.4.0'' caret_or_tilde = ''15.4.0''"
  by code_simp

lemma numbers_15_5_10:
  "version_numbers ''15.5.10'' = [JNum (Fin 15), JNum (Fin 5), JNum (Fin 10)]"
  by code_simp

lemma numbers_15_4_0:
  "version_numbers ''15.4.0'' = [JNum (Fin 15), JNum (Fin 4), JNum (Fin 0)]"
  by code_simp

text \<open>
  Claim C2. For a manifest whose \<^verbatim>\<open>dependencies\<close> map has \<^verbatim>\<open>"next": "^15.5.10"\<close>, the
  vulnerability check passes without throwing; for \<^verbatim>\<open>"next": "^15.4.0"\<close> it throws.
  Both tests of the script that make the check are covered: the one that compares major,
  minor and patch in turn, and the one that computes \<^verbatim>\<open>isVulnerable\<close>.
\<close>

theorem next_version_spec:
  assumes "map_of kvs ''dependencies'' = Some (JObj b ds)"
    and "map_of ds ''next'' = Some (JStr v)"
  shows "(v = ''^15.5.10'' \<longrightarrow>
            test_next_version (JObj a kvs) = Inr ()
          \<and> test_not_vulnerable (JObj a kvs) = Inr ())
       \<and> (v = ''^15.4.0'' \<longrightarrow>
            test_next_version (JObj a kvs)
              = Inl (Error ''Expected 4 to be greater than or equal to 5'')
          \<and> test_not_vulnerable (JObj a kvs)
              = Inl (Error ''Expected false, but got true''))"
  using assms
  by (simp add: test_next_version_def test_not_vulnerable_def clean_15_5_10 clean_15_4_0
      numbers_15_5_10 numbers_15_4_0 element_def toBeGreaterThanOrEqual_def toBe_def
      shown_bool digit_char_def string_of_nat.simps)

theorem next_version_spec_witness:
  "test_next_version (scenario ''^15.5.10'') = Inr ()
   \<and> test_not_vulnerable (scenario ''^15.5.10'') = Inr ()
   \<and> test_next_version (scenario ''^15.4.0'')
       = Inl (Error ''Expected 4 to be greater than or equal to 5'')
   \<and> test_not_vulnerable (scenario ''^15.4.0'')
       = Inl (Error ''Expected false, but got true'')"
  using next_version_spec [of
      "[(''name'', JStr ''@scope/pkg''), (''version'', JStr ''1.0.0''),
        (''private'', JBool True),
        (''dependencies'', JObj 1 [(''next'', JStr ''^15.5.10'')]),
        (''devDependencies'', JObj 2 [])]"
      1 "[(''next'', JStr ''^15.5.10'')]" "''^15.5.10''" 0]
    next_version_spec [of
      "[(''name'', JStr ''@scope/pkg''), (''version'', JStr ''1.0.0''),
        (''private'', JBool True),
        (''dependencies'', JObj 1 [(''next'', JStr ''^15.4.0'')]),
        (''devDependencies'', JObj 2 [])]"
      1 "[(''next'', JStr ''^15.4.0'')]" "''^15.4.0''" 0]
  by (simp add: scenario_def)

text \<open>
  Claim C6. For a manifest with \<^verbatim>\<open>"react": "18.2.0"\<close> and \<^verbatim>\<open>"react-dom": "18.1.0"\<close>
  the version-consistency check throws; for any manifest in which the two version strings
  are identical it passes. More generally, on two version strings the check throws exactly
  when they are different, and the message quotes both.
\<close>

theorem react_consistent_spec:
  assumes "map_of kvs ''dependencies'' = Some (JObj b ds)"
    and "map_of ds ''react'' = Some (JStr v)"
    and "map_of ds ''react-dom'' = Some (JStr w)"
  shows "(v = w \<longrightarrow> test_react_consistent (JObj a kvs) = Inr ())
       \<and> (v \<noteq> w \<longrightarrow> test_react_consistent (JObj a kvs)
             = Inl (Error (''Expected '' @ json_quote w @ '', but got '' @ json_quote v)))"
  using assms by (simp add: test_react_consistent_def toBe_def shown_str)

theorem react_consistent_spec_witness:
  "throws (test_react_consistent
     (JObj 0 [(''dependencies'',
        JObj 1 [(''react'', JStr ''18.2.0''), (''react-dom'', JStr ''18.1.0'')])]))
   \<and> test_react_consistent
     (JObj 0 [(''dependencies'',
        JObj 1 [(''react'', JStr ''18.2.0''), (''react-dom'', JStr ''18.2.0'')])]) = Inr ()"
  using react_consistent_spec [of
      "[(''dependencies'',
         JObj 1 [(''react'', JStr ''18.2.0''), (''react-dom'', JStr ''18.1.0'')])]"
      1 "[(''react'', JStr ''18.2.0''), (''react-dom'', JStr ''18.1.0'')]"
      "''18.2.0''" "''18.1.0''" 0]
    react_consistent_spec [of
      "[(''dependencies'',
         JObj 1 [(''react'', JStr ''18.2.0''), (''react-dom'', JStr ''18.2.0'')])]"
      1 "[(''react'', JStr ''18.2.0''), (''react-dom'', JStr ''18.2.0'')]"
      "''18.2.0''" "''18.2.0''" 0]
  by (simp add: throws_def)

lemma stringify_strings:
  "JSON_stringify (JArr i (map JStr xs)) = JSON_stringify (JArr j []) \<longleftrightarrow> xs = []"
proof (cases "xs = []")
  case True
  then show ?thesis by simp
next
  case False
  then have "join '','' (map json_quote xs) \<noteq> []"
    by (intro join_nonempty) (auto simp: json_quote_nonempty)
  with False show ?thesis by (simp add: comp_def)
qed

lemma toEqual_strings:
  "throws (toEqual (JArr i (map JStr xs)) (JArr j [])) \<longleftrightarrow> xs \<noteq> []"
  using stringify_strings [of i xs j] by (simp add: toEqual_def throws_def)

lemma no_duplicates_general:
  assumes "js_get pj ''dependencies'' = Inr d"
    and "js_get pj ''devDependencies'' = Inr v"
    and "Object_keys (js_or d (JObj free [])) = Inr dk"
    and "Object_keys (js_or v (JObj (free + 1) [])) = Inr vk"
  shows "throws (test_no_duplicates free pj) \<longleftrightarrow> set dk \<inter> set vk \<noteq> {}"
proof -
  have "filter (\<lambda>dep. List.member vk dep) dk \<noteq> [] \<longleftrightarrow> set dk \<inter> set vk \<noteq> {}"
    by (auto simp: filter_empty_conv)
  then show ?thesis
    using assms by (simp add: test_no_duplicates_def toEqual_strings Let_def)
qed

text \<open>
  Claim C7. The duplicate-dependency check throws exactly when some key occurs in both the
  \<^verbatim>\<open>dependencies\<close> and the \<^verbatim>\<open>devDependencies\<close> map of the manifest, and passes
  without throwing when the two sets of keys are disjoint.
\<close>

theorem no_duplicates_spec:
  assumes "map_of kvs ''dependencies'' = Some (JObj b ds)"
    and "map_of kvs ''devDependencies'' = Some (JObj c vs)"
  shows "throws (test_no_duplicates free (JObj a kvs))
           \<longleftrightarrow> fst ` set ds \<inter> fst ` set vs \<noteq> {}"
  using assms
    no_duplicates_general [of "JObj a kvs" "JObj b ds" "JObj c vs" free
      "map fst ds" "map fst vs"]
  by (simp add: js_or_def)

theorem no_duplicates_spec_witness:
  "throws (test_no_duplicates 3
     (JObj 0 [(''dependencies'',
                 JObj 1 [(''next'', JStr ''^15.5.10''), (''jest'', JStr ''^29.0.0'')]),
              (''devDependencies'', JObj 2 [(''jest'', JStr ''^29.0.0'')])]))
   \<and> \<not> throws (test_no_duplicates 3
     (JObj 0 [(''dependencies'', JObj 1 [(''next'', JStr ''^15.5.10'')]),
              (''devDependencies'', JObj 2 [(''jest'', JStr ''^29.0.0'')])]))"
  using no_duplicates_spec [of
      "[(''dependencies'',
           JObj 1 [(''next'', JStr ''^15.5.10''), (''jest'', JStr ''^29.0.0'')]),
        (''devDependencies'', JObj 2 [(''jest'', JStr ''^29.0.0'')])]"
      1 "[(''next'', JStr ''^15.5.10''), (''jest'', JStr ''^29.0.0'')]"
      2 "[(''jest'', JStr ''^29.0.0'')]" 3 0]
    no_duplicates_spec [of
      "[(''dependencies'', JObj 1 [(''next'', JStr ''^15.5.10'')]),
        (''devDependencies'', JObj 2 [(''jest'', JStr ''^29.0.0'')])]"
      1 "[(''next'', JStr ''^15.5.10'')]" 2 "[(''jest'', JStr ''^29.0.0'')]" 3 0]
  by simp

end
